theory Spec2Isabelle
  imports Complex_Main
begin

section \<open>The callback contexts of scipy/integrate/quadpack.h\<close>

text \<open>
  The header keeps the function that a QUADPACK routine calls back in file-level
  variables, and saves and restores them around each call of a routine so that
  integrations can nest. This theory embeds those variables, the three storage
  structs and every function of the header, and proves the properties of the
  install / evaluate / restore protocol.

  Conventions of the embedding.
  \<^item> A pointer that the header stores (a function pointer, the parameter array,
    a Python object) is an address, \<open>NULL\<close> or \<open>Ptr a\<close>; what lives at an
    address is looked up in a memory at the moment it is used, as the C code does.
  \<^item> A pointer parameter that is only read during the call (\<open>double *x\<close>,
    \<open>double args[nargs]\<close>) is the list of doubles from the pointer to the end of
    the array it points into.
  \<^item> The type of doubles is a type variable \<open>'d\<close>: the header only copies doubles.
  \<^item> A C \<open>int\<close> is an \<open>int\<close>; signed overflow is undefined behaviour and is
    checked where the header computes (\<open>globalnargs + 1\<close>).
  \<^item> Undefined behaviour (a null or dangling pointer dereferenced, a read past
    the end of an array, signed overflow, an array of non-positive length) is the
    value \<open>None\<close>.
\<close>

subsection \<open>Pointers, status codes and machine integers\<close>

datatype ptr = NULL | Ptr nat

text \<open>\<open>NPY_FAIL\<close> and \<open>NPY_SUCCEED\<close> are numpy's macros, 0 and 1.\<close>

definition NPY_FAIL :: int where
  "NPY_FAIL = 0"

definition NPY_SUCCEED :: int where
  "NPY_SUCCEED = 1"

definition INT_MAX :: int where
  "INT_MAX = 2147483647"

definition INT_MIN :: int where
  "INT_MIN = - 2147483648"

text \<open>Addition of two C ints: undefined when the result is not representable.\<close>

definition int_add :: "int \<Rightarrow> int \<Rightarrow> int option" where
  "int_add a b = (if INT_MIN \<le> a + b \<and> a + b \<le> INT_MAX then Some (a + b) else None)"

subsection \<open>Memory\<close>

text \<open>
  \<open>doubles\<close>: the arrays of double, by the address of their first element.
  \<open>funcs_n\<close>: the code at the addresses of functions \<open>double f(int, double *)\<close>.
  \<open>funcs_1\<close>: the code at the addresses of functions \<open>double f(double *)\<close>.
  A function returns \<open>None\<close> where it has undefined behaviour itself (it reads
  past the array it was given).
\<close>

record 'd memory =
  doubles :: "nat \<Rightarrow> 'd list option"
  funcs_n :: "nat \<Rightarrow> (int \<Rightarrow> 'd list \<Rightarrow> 'd option) option"
  funcs_1 :: "nat \<Rightarrow> ('d list \<Rightarrow> 'd option) option"

text \<open>\<open>p[k]\<close> for a stored pointer \<open>p\<close> to doubles.\<close>

definition load :: "'d memory \<Rightarrow> ptr \<Rightarrow> int \<Rightarrow> 'd option" where
  "load m p k =
     (case p of
        NULL \<Rightarrow> None
      | Ptr a \<Rightarrow>
          (case doubles m a of
             None \<Rightarrow> None
           | Some xs \<Rightarrow> if 0 \<le> k \<and> nat k < length xs then Some (xs ! nat k) else None))"

subsection \<open>The file-level variables\<close>

type_synonym jmp_buf = "nat list"

record globals =
  quadpack_python_function :: ptr
  quadpack_extra_arguments :: ptr
  quadpack_jmpbuf :: jmp_buf
  quadpack_ctypes_function :: ptr
  quadpack_error :: ptr
  globalargs :: ptr
  globalf :: ptr
  globalnargs :: int
  globalbasef :: ptr

subsection \<open>The storage structs\<close>

record ZStorage =
  z_args0 :: ptr
  z_nargs0 :: int
  z_f0 :: ptr
  z_args1 :: ptr
  z_nargs1 :: int
  z_f1 :: ptr

record YStorage =
  y_func0 :: ptr
  y_func1 :: ptr

record QStorage =
  global0 :: ptr
  global1 :: ptr
  jmp :: jmp_buf
  arg_obj :: ptr

subsection \<open>The multivariate context\<close>

definition init_c_multivariate ::
  "ZStorage \<Rightarrow> ptr \<Rightarrow> int \<Rightarrow> ptr \<Rightarrow> globals \<Rightarrow> int \<times> ZStorage \<times> globals" where
  "init_c_multivariate store f n args g =
     (let store = store\<lparr>z_f0 := globalf g, z_nargs0 := globalnargs g, z_args0 := globalargs g\<rparr>;
          store = store\<lparr>z_f1 := f, z_nargs1 := n, z_args1 := args\<rparr>
      in if z_f1 store = NULL then (NPY_FAIL, store, g)
         else (NPY_SUCCEED, store,
               g\<lparr>globalf := z_f1 store, globalnargs := z_nargs1 store,
                 globalargs := z_args1 store\<rparr>))"

text \<open>
  The loop of \<open>call_c_multivariate\<close>,
  \<^verbatim>\<open>for(i; i < globalnargs + 1 ; i++){ evalArray[i] = globalargs[i-1]; }\<close>
  with \<open>bound\<close> the value of \<open>globalnargs + 1\<close>. The array \<open>evalArray\<close> is a
  list of cells, \<open>None\<close> for a cell not yet written.
\<close>

function copy_loop ::
  "'d memory \<Rightarrow> ptr \<Rightarrow> int \<Rightarrow> int \<Rightarrow> 'd option list \<Rightarrow> 'd option list option" where
  "copy_loop m src bound i evalArray =
     (if i < bound then
        (case load m src (i - 1) of
           None \<Rightarrow> None
         | Some v \<Rightarrow>
             if 0 \<le> i \<and> nat i < length evalArray
             then copy_loop m src bound (i + 1) (evalArray[nat i := Some v])
             else None)
      else Some evalArray)"
  by pat_completeness auto
termination
  by (relation "measure (\<lambda>(m, src, bound, i, evalArray). nat (bound - i))") auto

declare copy_loop.simps [simp del]

text \<open>
  \<open>call_c_multivariate\<close>. The array has \<open>globalnargs + 1\<close> cells; cell 0 is
  \<open>*x\<close>; the loop fills the others; the active function is called on
  \<open>globalnargs\<close> and the array.
\<close>

definition call_c_multivariate :: "'d memory \<Rightarrow> globals \<Rightarrow> 'd list \<Rightarrow> 'd option" where
  "call_c_multivariate m g x =
     (case int_add (globalnargs g) 1 of
        None \<Rightarrow> None
      | Some len \<Rightarrow>
          if len \<le> 0 then None
          else
            (case x of
               [] \<Rightarrow> None
             | x0 # _ \<Rightarrow>
                 (case copy_loop m (globalargs g) len 1
                         ((replicate (nat len) None)[0 := Some x0]) of
                    None \<Rightarrow> None
                  | Some evalArray \<Rightarrow>
                      (case globalf g of
                         NULL \<Rightarrow> None
                       | Ptr a \<Rightarrow>
                           (case funcs_n m a of
                              None \<Rightarrow> None
                            | Some f \<Rightarrow>
                                (case those evalArray of
                                   None \<Rightarrow> None
                                 | Some arr \<Rightarrow> f (globalnargs g) arr))))))"

definition restore_c_multivariate :: "ZStorage \<Rightarrow> globals \<Rightarrow> globals" where
  "restore_c_multivariate store g =
     g\<lparr>globalf := z_f0 store, globalnargs := z_nargs0 store, globalargs := z_args0 store\<rparr>"

subsection \<open>The single-variable wrapper\<close>

definition funcwrapper_init :: "YStorage \<Rightarrow> ptr \<Rightarrow> globals \<Rightarrow> YStorage \<times> globals" where
  "funcwrapper_init store f g =
     (let store = store\<lparr>y_func0 := globalbasef g\<rparr>;
          store = store\<lparr>y_func1 := f\<rparr>
      in (store, g\<lparr>globalbasef := y_func1 store\<rparr>))"

definition funcwrapper :: "'d memory \<Rightarrow> globals \<Rightarrow> int \<Rightarrow> 'd list \<Rightarrow> 'd option" where
  "funcwrapper m g nargs args =
     (case globalbasef g of
        NULL \<Rightarrow> None
      | Ptr a \<Rightarrow> (case funcs_1 m a of None \<Rightarrow> None | Some f \<Rightarrow> f args))"

definition funcwrapper_restore :: "YStorage \<Rightarrow> globals \<Rightarrow> globals" where
  "funcwrapper_restore store g = g\<lparr>globalbasef := y_func0 store\<rparr>"

subsection \<open>Nested regions of the multivariate context\<close>

text \<open>
  What happens between an install and its restore: the integration routine calls
  \<open>call_c_multivariate\<close> back at points of its choice (\<open>Evaluate x\<close>), and an
  integrand may start an integration of its own, which is an install / restore
  pair around a region of its own (\<open>Region store f n args body\<close>, with \<open>store\<close>
  the caller's record as it is before the install). An install that fails skips
  the body. The run returns the file-level variables and the values of the
  evaluations in order.
\<close>

datatype 'd action =
    Evaluate "'d list"
  | Region ZStorage ptr int ptr "'d action list"

fun run_action :: "'d memory \<Rightarrow> 'd action \<Rightarrow> globals \<Rightarrow> globals \<times> 'd option list"
  and run_actions :: "'d memory \<Rightarrow> 'd action list \<Rightarrow> globals \<Rightarrow> globals \<times> 'd option list" where
  "run_action m (Evaluate x) g = (g, [call_c_multivariate m g x])"
| "run_action m (Region store f n args body) g =
     (case init_c_multivariate store f n args g of
        (rc, store', g1) \<Rightarrow>
          (case (if rc = NPY_SUCCEED then run_actions m body g1 else (g1, [])) of
             (g2, out) \<Rightarrow> (restore_c_multivariate store' g2, out)))"
| "run_actions m [] g = (g, [])"
| "run_actions m (a # as) g =
     (case run_action m a g of
        (g1, out1) \<Rightarrow>
          (case run_actions m as g1 of (g2, out2) \<Rightarrow> (g2, out1 @ out2)))"

subsection \<open>The Python objects the header touches\<close>

text \<open>
  The part of the Python C API that the header calls, from its documentation.
  An object has a reference count and is a tuple (with its items), a ctypes
  function object (with its \<open>b_ptr\<close>, the address of the cell that holds the C
  function pointer) or something else. \<open>py_cells\<close> is the content of those
  cells. \<open>py_error\<close> is the error indicator. An address that holds no object is
  not a tuple, and counting references on it changes nothing.
\<close>

datatype pykind = PyTuple "ptr list" | PyCFuncPtr ptr | PyOther

record pyobject =
  ob_refcnt :: int
  ob_kind :: pykind

datatype pyerr = MemoryError | Raised ptr string

record pystate =
  py_objects :: "nat \<Rightarrow> pyobject option"
  py_cells :: "nat \<Rightarrow> ptr option"
  py_error :: "pyerr option"

definition Py_INCREF :: "ptr \<Rightarrow> pystate \<Rightarrow> pystate" where
  "Py_INCREF p py =
     (case p of
        NULL \<Rightarrow> py
      | Ptr a \<Rightarrow>
          (case py_objects py a of
             None \<Rightarrow> py
           | Some ob \<Rightarrow> py\<lparr>py_objects := (py_objects py)(a \<mapsto> ob\<lparr>ob_refcnt := ob_refcnt ob + 1\<rparr>)\<rparr>))"

text \<open>\<open>Py_XDECREF\<close>: nothing for \<open>NULL\<close>; the object is freed when its count reaches 0.\<close>

definition Py_XDECREF :: "ptr \<Rightarrow> pystate \<Rightarrow> pystate" where
  "Py_XDECREF p py =
     (case p of
        NULL \<Rightarrow> py
      | Ptr a \<Rightarrow>
          (case py_objects py a of
             None \<Rightarrow> py
           | Some ob \<Rightarrow>
               if ob_refcnt ob - 1 = 0 then py\<lparr>py_objects := (py_objects py)(a := None)\<rparr>
               else py\<lparr>py_objects := (py_objects py)(a \<mapsto> ob\<lparr>ob_refcnt := ob_refcnt ob - 1\<rparr>)\<rparr>))"

definition PyTuple_Check :: "pystate \<Rightarrow> ptr \<Rightarrow> bool" where
  "PyTuple_Check py p =
     (case p of
        NULL \<Rightarrow> False
      | Ptr a \<Rightarrow>
          (case py_objects py a of
             None \<Rightarrow> False
           | Some ob \<Rightarrow> (case ob_kind ob of PyTuple items \<Rightarrow> True | _ \<Rightarrow> False)))"

text \<open>
  \<open>PyTuple_New(0)\<close>. \<open>fresh\<close> is the allocator's answer: \<open>None\<close> when memory is
  exhausted (the call returns \<open>NULL\<close> with the error indicator set), \<open>Some a\<close>
  for the address of the new tuple, which has no items and one reference.
\<close>

definition PyTuple_New0 :: "nat option \<Rightarrow> pystate \<Rightarrow> ptr \<times> pystate" where
  "PyTuple_New0 fresh py =
     (case fresh of
        None \<Rightarrow> (NULL, py\<lparr>py_error := Some MemoryError\<rparr>)
      | Some a \<Rightarrow>
          (Ptr a, py\<lparr>py_objects := (py_objects py)(a \<mapsto> \<lparr>ob_refcnt = 1, ob_kind = PyTuple []\<rparr>)\<rparr>))"

definition PyErr_SetString :: "ptr \<Rightarrow> string \<Rightarrow> pystate \<Rightarrow> pystate" where
  "PyErr_SetString errobj message py = py\<lparr>py_error := Some (Raised errobj message)\<rparr>"

definition PyErr_Occurred :: "pystate \<Rightarrow> bool" where
  "PyErr_Occurred py = (py_error py \<noteq> None)"

definition PyErr_Clear :: "pystate \<Rightarrow> pystate" where
  "PyErr_Clear py = py\<lparr>py_error := None\<rparr>"

subsection \<open>The Python-function context\<close>

text \<open>Lines 106 to 113 of the header: the part of \<open>quad_init_func\<close> after the if / else.\<close>

definition quad_init_check ::
  "QStorage \<Rightarrow> ptr \<Rightarrow> globals \<Rightarrow> pystate \<Rightarrow> int \<times> QStorage \<times> globals \<times> pystate" where
  "quad_init_check store func g py =
     (if \<not> PyTuple_Check py (arg_obj store) then
        (let py = PyErr_SetString (quadpack_error g) ''Extra Arguments must be in a tuple'' py;
             py = Py_XDECREF (arg_obj store) py
         in (NPY_FAIL, store, g, py))
      else
        (let g = g\<lparr>quadpack_python_function := func\<rparr>;
             g = g\<lparr>quadpack_extra_arguments := arg_obj store\<rparr>
         in (NPY_SUCCEED, store, g, py)))"

definition quad_init_func ::
  "nat option \<Rightarrow> QStorage \<Rightarrow> ptr \<Rightarrow> ptr \<Rightarrow> globals \<Rightarrow> pystate
     \<Rightarrow> int \<times> QStorage \<times> globals \<times> pystate" where
  "quad_init_func fresh store func a g py =
     (let store = store\<lparr>global0 := quadpack_python_function g\<rparr>;
          store = store\<lparr>global1 := quadpack_extra_arguments g\<rparr>;
          store = store\<lparr>jmp := quadpack_jmpbuf g\<rparr>;
          store = store\<lparr>arg_obj := a\<rparr>
      in if arg_obj store = NULL then
           (case PyTuple_New0 fresh py of
              (t, py) \<Rightarrow>
                (let store = store\<lparr>arg_obj := t\<rparr>
                 in if arg_obj store = NULL then (NPY_FAIL, store, g, py)
                    else quad_init_check store func g py))
         else quad_init_check store func g (Py_INCREF (arg_obj store) py))"

text \<open>\<open>ierr\<close> is \<open>None\<close> for a null pointer, \<open>Some e\<close> for a pointer to an int that holds \<open>e\<close>.\<close>

definition quad_restore_func ::
  "QStorage \<Rightarrow> int option \<Rightarrow> globals \<Rightarrow> pystate \<Rightarrow> globals \<times> pystate \<times> int option" where
  "quad_restore_func store ierr g py =
     (let g = g\<lparr>quadpack_python_function := global0 store\<rparr>;
          g = g\<lparr>quadpack_extra_arguments := global1 store\<rparr>;
          g = g\<lparr>quadpack_jmpbuf := jmp store\<rparr>;
          py = Py_XDECREF (arg_obj store) py
      in case ierr of
           None \<Rightarrow> (g, py, None)
         | Some e \<Rightarrow>
             if PyErr_Occurred py then (g, PyErr_Clear py, Some 80) else (g, py, Some e))"

subsection \<open>The ctypes context\<close>

text \<open>\<open>*((void **)(((_sp_cfuncptr_object *)(obj))->b_ptr))\<close>\<close>

definition get_ctypes_function_pointer :: "pystate \<Rightarrow> ptr \<Rightarrow> ptr option" where
  "get_ctypes_function_pointer py obj =
     (case obj of
        NULL \<Rightarrow> None
      | Ptr a \<Rightarrow>
          (case py_objects py a of
             None \<Rightarrow> None
           | Some ob \<Rightarrow>
               (case ob_kind ob of
                  PyCFuncPtr b \<Rightarrow> (case b of NULL \<Rightarrow> None | Ptr c \<Rightarrow> py_cells py c)
                | _ \<Rightarrow> None)))"

definition init_ctypes_func ::
  "QStorage \<Rightarrow> ptr \<Rightarrow> globals \<Rightarrow> pystate \<Rightarrow> (int \<times> QStorage \<times> globals) option" where
  "init_ctypes_func store func g py =
     (let store = store\<lparr>global0 := quadpack_ctypes_function g\<rparr>
      in case get_ctypes_function_pointer py func of
           None \<Rightarrow> None
         | Some p \<Rightarrow>
             (let store = store\<lparr>global1 := p\<rparr>
              in if global1 store = NULL then Some (NPY_FAIL, store, g)
                 else Some (NPY_SUCCEED, store, g\<lparr>quadpack_ctypes_function := global1 store\<rparr>)))"

definition restore_ctypes_func :: "QStorage \<Rightarrow> globals \<Rightarrow> globals" where
  "restore_ctypes_func store g = g\<lparr>quadpack_ctypes_function := global0 store\<rparr>"

subsection \<open>Views of the state and of a record\<close>

definition active_multivariate :: "globals \<Rightarrow> ptr \<times> int \<times> ptr" where
  "active_multivariate g = (globalf g, globalnargs g, globalargs g)"

definition z_previous :: "ZStorage \<Rightarrow> ptr \<times> int \<times> ptr" where
  "z_previous store = (z_f0 store, z_nargs0 store, z_args0 store)"

definition z_new :: "ZStorage \<Rightarrow> ptr \<times> int \<times> ptr" where
  "z_new store = (z_f1 store, z_nargs1 store, z_args1 store)"

definition active_python :: "globals \<Rightarrow> ptr \<times> ptr \<times> jmp_buf" where
  "active_python g = (quadpack_python_function g, quadpack_extra_arguments g, quadpack_jmpbuf g)"

definition q_previous :: "QStorage \<Rightarrow> ptr \<times> ptr \<times> jmp_buf" where
  "q_previous store = (global0 store, global1 store, jmp store)"

text \<open>
  A scalar function behind the type \<open>double (*)(double *)\<close>: it reads the double
  its argument points to and nothing else.
\<close>

definition by_reference :: "('d \<Rightarrow> 'd) \<Rightarrow> 'd list \<Rightarrow> 'd option" where
  "by_reference s args = (case args of [] \<Rightarrow> None | x # _ \<Rightarrow> Some (s x))"

subsection \<open>The test fixture of tests/testlib.c\<close>

definition PI :: real where
  "PI = 3.14159265358979323846264338327950288419716939937510582"

text \<open>\<open>typical\<close> reads \<open>args[0]\<close>, \<open>args[1]\<close> and \<open>args[2]\<close>, and ignores \<open>n\<close>.\<close>

definition typical :: "int \<Rightarrow> real list \<Rightarrow> real option" where
  "typical n args =
     (if 2 < length args
      then Some (cos (args ! 1 * args ! 0 - args ! 2 * sin (args ! 0)) / PI)
      else None)"

text \<open>
  The function of the scenario as the specification writes it,
  \<open>g(n, a) = cos(a[1]*a[0] - a[2]*sin(a[0]))\<close>, with no division.
\<close>

definition scenario_g :: "int \<Rightarrow> real list \<Rightarrow> real option" where
  "scenario_g n args =
     (if 2 < length args
      then Some (cos (args ! 1 * args ! 0 - args ! 2 * sin (args ! 0)))
      else None)"

text \<open>
  A memory for the fixture: the function \<open>fn\<close> at address 4, the parameters
  \<open>[3.0, 1.0]\<close> at address 2.
\<close>

definition fixture_memory :: "(int \<Rightarrow> real list \<Rightarrow> real option) \<Rightarrow> real memory" where
  "fixture_memory fn =
     \<lparr>doubles = [2 \<mapsto> [3.0, 1.0]], funcs_n = [4 \<mapsto> fn], funcs_1 = Map.empty\<rparr>"

subsection \<open>Concrete states\<close>

text \<open>The file-level variables when the module is loaded: statics are zeroed.\<close>

definition initial_globals :: globals where
  "initial_globals =
     \<lparr>quadpack_python_function = NULL, quadpack_extra_arguments = NULL,
      quadpack_jmpbuf = [], quadpack_ctypes_function = NULL, quadpack_error = NULL,
      globalargs = NULL, globalf = NULL, globalnargs = 0, globalbasef = NULL\<rparr>"

definition blank_ZStorage :: ZStorage where
  "blank_ZStorage =
     \<lparr>z_args0 = NULL, z_nargs0 = 0, z_f0 = NULL, z_args1 = NULL, z_nargs1 = 0, z_f1 = NULL\<rparr>"

definition blank_QStorage :: QStorage where
  "blank_QStorage = \<lparr>global0 = NULL, global1 = NULL, jmp = [], arg_obj = NULL\<rparr>"

text \<open>
  A context of the largest arity a C int can hold, on an array of that many
  doubles at address 2; the function at address 4 returns \<open>args[0]\<close>.
\<close>

definition first_arg :: "int \<Rightarrow> real list \<Rightarrow> real option" where
  "first_arg n args = (case args of [] \<Rightarrow> None | x # _ \<Rightarrow> Some x)"

definition widest_memory :: "real memory" where
  "widest_memory =
     \<lparr>doubles = [2 \<mapsto> replicate 2147483647 0], funcs_n = [4 \<mapsto> first_arg],
      funcs_1 = Map.empty\<rparr>"

definition widest_globals :: globals where
  "widest_globals = initial_globals\<lparr>globalf := Ptr 4, globalnargs := 2147483647, globalargs := Ptr 2\<rparr>"

text \<open>A Python heap with a tuple at address 7 and an object that is no tuple at address 8.\<close>

definition sample_pystate :: pystate where
  "sample_pystate =
     \<lparr>py_objects = [7 \<mapsto> \<lparr>ob_refcnt = 1, ob_kind = PyTuple []\<rparr>,
                    8 \<mapsto> \<lparr>ob_refcnt = 1, ob_kind = PyOther\<rparr>,
                    6 \<mapsto> \<lparr>ob_refcnt = 1, ob_kind = PyCFuncPtr (Ptr 20)\<rparr>],
      py_cells = [20 \<mapsto> NULL], py_error = None\<rparr>"

text \<open>
  Two nested installs from the initial state: the outer one of the function at
  address 4 with the two parameters at address 2, the inner one of the function
  at address 5 with no parameters. The records and the variables after each.
\<close>

definition outer_record :: ZStorage where
  "outer_record =
     \<lparr>z_args0 = NULL, z_nargs0 = 0, z_f0 = NULL, z_args1 = Ptr 2, z_nargs1 = 2, z_f1 = Ptr 4\<rparr>"

definition outer_globals :: globals where
  "outer_globals = initial_globals\<lparr>globalf := Ptr 4, globalnargs := 2, globalargs := Ptr 2\<rparr>"

definition inner_record :: ZStorage where
  "inner_record =
     \<lparr>z_args0 = Ptr 2, z_nargs0 = 2, z_f0 = Ptr 4, z_args1 = NULL, z_nargs1 = 0, z_f1 = Ptr 5\<rparr>"

definition inner_globals :: globals where
  "inner_globals = initial_globals\<lparr>globalf := Ptr 5, globalnargs := 0, globalargs := NULL\<rparr>"

text \<open>A memory whose only function, at address 3, negates the double it is pointed to.\<close>

definition negate_memory :: "real memory" where
  "negate_memory =
     \<lparr>doubles = Map.empty, funcs_n = Map.empty, funcs_1 = [3 \<mapsto> by_reference uminus]\<rparr>"

definition blank_YStorage :: YStorage where
  "blank_YStorage = \<lparr>y_func0 = NULL, y_func1 = NULL\<rparr>"

section \<open>Properties\<close>

subsection \<open>Auxiliary facts\<close>

lemma load_Ptr:
  "doubles m a = Some p \<Longrightarrow> 0 \<le> k \<Longrightarrow> nat k < length p \<Longrightarrow> load m (Ptr a) k = Some (p ! nat k)"
  by (simp add: load_def)

lemma copy_loop_done: "bound \<le> i \<Longrightarrow> copy_loop m src bound i ev = Some ev"
  by (simp add: copy_loop.simps)

text \<open>
  The loop started at \<open>i\<close> keeps the cells below \<open>i\<close> and writes
  \<open>p[i-1], ..., p[bound-2]\<close> into the cells \<open>i, ..., bound-1\<close>.
\<close>

lemma copy_loop_fill:
  assumes mem: "doubles m a = Some p" and len: "nat (bound - 1) \<le> length p"
  shows "k = nat (bound - i) \<Longrightarrow> 1 \<le> i \<Longrightarrow> i \<le> bound \<Longrightarrow> nat bound = length ev \<Longrightarrow>
         copy_loop m (Ptr a) bound i ev =
           Some (take (nat i) ev @ map Some (take (nat (bound - i)) (drop (nat (i - 1)) p)))"
proof (induction k arbitrary: i ev)
  case 0
  then have "i = bound" by simp
  with 0 show ?case by (simp add: copy_loop_done)
next
  case (Suc k)
  have lt: "i < bound" using Suc.prems by linarith
  have k: "nat (i - 1) < length p" using lt Suc.prems len by linarith
  have ld: "load m (Ptr a) (i - 1) = Some (p ! nat (i - 1))"
    using load_Ptr [OF mem, of "i - 1"] k Suc.prems by simp
  have ib: "0 \<le> i \<and> nat i < length ev" using lt Suc.prems by linarith
  have step: "copy_loop m (Ptr a) bound i ev =
              copy_loop m (Ptr a) bound (i + 1) (ev[nat i := Some (p ! nat (i - 1))])"
    using lt ld ib by (subst copy_loop.simps) simp
  have ih: "copy_loop m (Ptr a) bound (i + 1) (ev[nat i := Some (p ! nat (i - 1))]) =
        Some (take (nat (i + 1)) (ev[nat i := Some (p ! nat (i - 1))]) @
              map Some (take (nat (bound - (i + 1))) (drop (nat (i + 1 - 1)) p)))"
  proof (rule Suc.IH)
    show "k = nat (bound - (i + 1))" using Suc.prems by linarith
    show "1 \<le> i + 1" using Suc.prems by linarith
    show "i + 1 \<le> bound" using lt by linarith
    show "nat bound = length (ev[nat i := Some (p ! nat (i - 1))])" using Suc.prems by simp
  qed
  have t1: "take (nat (i + 1)) (ev[nat i := Some (p ! nat (i - 1))]) =
            take (nat i) ev @ [Some (p ! nat (i - 1))]"
  proof -
    have "nat (i + 1) = Suc (nat i)" using Suc.prems by linarith
    then show ?thesis using ib by (simp add: take_Suc_conv_app_nth)
  qed
  have t2: "take (nat (bound - i)) (drop (nat (i - 1)) p) =
            p ! nat (i - 1) # take (nat (bound - (i + 1))) (drop (nat (i + 1 - 1)) p)"
  proof -
    have a: "nat (bound - i) = Suc (nat (bound - (i + 1)))" using lt by linarith
    have b: "nat (i + 1 - 1) = Suc (nat (i - 1))" using Suc.prems by linarith
    have "drop (nat (i - 1)) p = p ! nat (i - 1) # drop (Suc (nat (i - 1))) p"
      using k by (simp add: Cons_nth_drop_Suc)
    then show ?thesis unfolding a b by simp
  qed
  show ?case unfolding step ih t1 t2 by simp
qed

lemma those_map_Some: "those (map Some xs) = Some xs"
  by (induction xs) simp_all

text \<open>
  The evaluation in general: with an arity from 0 to \<open>INT_MAX - 1\<close>, an active
  function, and (unless the arity is 0) at least arity many doubles behind
  \<open>globalargs\<close>, the active function is called on \<open>*x\<close> followed by the first
  arity many of them.
\<close>

lemma call_c_multivariate_eval:
  assumes n: "0 \<le> globalnargs g" "globalnargs g < INT_MAX"
    and ar: "globalnargs g = 0 \<or>
             (globalargs g = Ptr a \<and> doubles m a = Some p \<and> nat (globalnargs g) \<le> length p)"
    and f: "globalf g = Ptr b" "funcs_n m b = Some f"
  shows "call_c_multivariate m g (x # xs) = f (globalnargs g) (x # take (nat (globalnargs g)) p)"
proof -
  let ?n = "globalnargs g"
  have add: "int_add ?n 1 = Some (?n + 1)"
    using n by (simp add: int_add_def INT_MAX_def INT_MIN_def)
  let ?ev = "(replicate (nat (?n + 1)) None)[0 := Some x]"
  have loop: "copy_loop m (globalargs g) (?n + 1) 1 ?ev = Some (map Some (x # take (nat ?n) p))"
  proof (cases "?n = 0")
    case True
    then show ?thesis by (simp add: copy_loop_done)
  next
    case False
    with ar have ar': "globalargs g = Ptr a" "doubles m a = Some p" "nat ?n \<le> length p" by auto
    have "copy_loop m (Ptr a) (?n + 1) 1 ?ev =
          Some (take (nat 1) ?ev @ map Some (take (nat (?n + 1 - 1)) (drop (nat (1 - 1)) p)))"
      using n ar' by (intro copy_loop_fill [OF ar'(2) _ refl]) auto
    moreover have "take (nat 1) ?ev = [Some x]"
    proof -
      have "nat (?n + 1) = Suc (nat ?n)" using n by linarith
      then show ?thesis by simp
    qed
    ultimately show ?thesis using ar' by simp
  qed
  show ?thesis
    unfolding call_c_multivariate_def add
    using n loop f by (simp add: those_map_Some)
qed

lemma init_c_multivariate_previous:
  "z_previous (fst (snd (init_c_multivariate store f n args g))) = active_multivariate g"
  by (simp add: init_c_multivariate_def z_previous_def active_multivariate_def Let_def)

lemma init_c_multivariate_new:
  "z_new (fst (snd (init_c_multivariate store f n args g))) = (f, n, args)"
  by (simp add: init_c_multivariate_def z_new_def Let_def)

lemma init_c_multivariate_frame:
  "snd (snd (init_c_multivariate store f n args g)) =
     (if f = NULL then g else g\<lparr>globalf := f, globalnargs := n, globalargs := args\<rparr>)"
  by (simp add: init_c_multivariate_def Let_def)

lemma init_c_multivariate_status:
  "fst (init_c_multivariate store f n args g) = (if f = NULL then NPY_FAIL else NPY_SUCCEED)"
  by (simp add: init_c_multivariate_def Let_def)

lemma restore_after_init:
  "init_c_multivariate store f n args g = (rc, store', g1) \<Longrightarrow>
   restore_c_multivariate store' g1 = g"
  by (auto simp: init_c_multivariate_def restore_c_multivariate_def Let_def split: if_splits)

text \<open>
  Evaluations do not write the variables, and a region puts back what it found:
  a run of any actions, nested to any depth, leaves the variables as they were.
\<close>

lemma run_preserves_globals:
  "fst (run_action m act g) = g"
  "fst (run_actions m acts g) = g"
proof (induction m act g and m acts g rule: run_action_run_actions.induct)
  case (1 m x g)
  show ?case by simp
next
  case (2 m store f n args body g)
  obtain rc store' g1 where i: "init_c_multivariate store f n args g = (rc, store', g1)"
    by (cases "init_c_multivariate store f n args g") auto
  have r: "restore_c_multivariate store' g1 = g"
    using i by (rule restore_after_init)
  show ?case
  proof (cases "rc = NPY_SUCCEED")
    case True
    then have "fst (run_actions m body g1) = g1" using 2 i by simp
    then show ?thesis using i r True by (cases "run_actions m body g1") simp
  next
    case False
    then show ?thesis using i r by simp
  qed
next
  case (3 m g)
  show ?case by simp
next
  case (4 m a as g)
  have a: "fst (run_action m a g) = g" using 4 by simp
  then have "fst (run_actions m as g) = g" using 4 by (metis prod.collapse)
  with a show ?case
    by (cases "run_action m a g"; cases "run_actions m as g") simp
qed

lemma PyTuple_Check_Py_INCREF: "PyTuple_Check (Py_INCREF p py) q = PyTuple_Check py q"
  by (auto simp: PyTuple_Check_def Py_INCREF_def split: ptr.splits option.splits pykind.splits)

lemma PyTuple_Check_fresh:
  "PyTuple_Check (py\<lparr>py_objects := (py_objects py)(t \<mapsto> \<lparr>ob_refcnt = r, ob_kind = PyTuple items\<rparr>)\<rparr>)
     (Ptr t)"
  by (simp add: PyTuple_Check_def)

lemma quad_init_check_cases:
  "quad_init_check store func g py =
     (if PyTuple_Check py (arg_obj store)
      then (NPY_SUCCEED, store,
            g\<lparr>quadpack_python_function := func, quadpack_extra_arguments := arg_obj store\<rparr>, py)
      else (NPY_FAIL, store, g,
            Py_XDECREF (arg_obj store)
              (PyErr_SetString (quadpack_error g) ''Extra Arguments must be in a tuple'' py)))"
  by (simp add: quad_init_check_def Let_def)

lemma quad_init_func_cases:
  "quad_init_func fresh store func a g py =
     (let store' = store\<lparr>global0 := quadpack_python_function g,
                         global1 := quadpack_extra_arguments g,
                         jmp := quadpack_jmpbuf g, arg_obj := a\<rparr>
      in if a = NULL then
           (case fresh of
              None \<Rightarrow> (NPY_FAIL, store', g, py\<lparr>py_error := Some MemoryError\<rparr>)
            | Some t \<Rightarrow>
                quad_init_check (store'\<lparr>arg_obj := Ptr t\<rparr>) func g
                  (py\<lparr>py_objects := (py_objects py)(t \<mapsto> \<lparr>ob_refcnt = 1, ob_kind = PyTuple []\<rparr>)\<rparr>))
         else quad_init_check store' func g (Py_INCREF a py))"
  by (simp add: quad_init_func_def PyTuple_New0_def Let_def split: option.splits)

lemma quad_init_func_status:
  "fst (quad_init_func fresh store func a g py) =
     (if a = NULL then (if fresh = None then NPY_FAIL else NPY_SUCCEED)
      else if PyTuple_Check py a then NPY_SUCCEED else NPY_FAIL)"
  by (simp add: quad_init_func_cases quad_init_check_cases Let_def PyTuple_Check_Py_INCREF
      PyTuple_Check_fresh split: option.splits)

lemma quad_init_func_globals:
  "fst (snd (snd (quad_init_func fresh store func a g py))) =
     (if fst (quad_init_func fresh store func a g py) = NPY_SUCCEED
      then g\<lparr>quadpack_python_function := func,
             quadpack_extra_arguments := (if a = NULL then Ptr (the fresh) else a)\<rparr>
      else g)"
  by (auto simp add: quad_init_func_cases quad_init_check_cases Let_def PyTuple_Check_Py_INCREF
      PyTuple_Check_fresh NPY_FAIL_def NPY_SUCCEED_def split: option.splits)

text \<open>The fixture's memory, after an install of arity 2 on it, at any point.\<close>

lemma fixture_call:
  "call_c_multivariate (fixture_memory fn)
     (snd (snd (init_c_multivariate store (Ptr 4) 2 (Ptr 2) g))) (x # xs) = fn 2 [x, 3.0, 1.0]"
proof -
  let ?g = "g\<lparr>globalf := Ptr 4, globalnargs := 2, globalargs := Ptr 2\<rparr>"
  have "call_c_multivariate (fixture_memory fn) ?g (x # xs) =
        fn (globalnargs ?g) (x # take (nat (globalnargs ?g)) [3.0, 1.0])"
    by (intro call_c_multivariate_eval [where a = 2 and b = 4])
       (simp_all add: fixture_memory_def INT_MAX_def)
  then show ?thesis by (simp add: init_c_multivariate_frame)
qed

text \<open>The cosine is positive from 0 to 3/2, by the half-angle formulas.\<close>

lemma cos_ge_parabola: "1 - y\<^sup>2 / 2 \<le> cos (y::real)"
proof -
  have "\<bar>sin (y / 2)\<bar> \<le> \<bar>y / 2\<bar>" by (rule abs_sin_x_le_abs_x)
  then have "(sin (y / 2))\<^sup>2 \<le> (y / 2)\<^sup>2" by (rule abs_le_square_iff [THEN iffD1])
  moreover have "cos y = 1 - 2 * (sin (y / 2))\<^sup>2"
    using cos_double_sin [of "y / 2"] by simp
  ultimately show ?thesis by (simp add: power_divide)
qed

lemma cos_pos_upto_three_halves:
  assumes "0 \<le> x" and "x \<le> 3 / 2"
  shows "0 < cos (x::real)"
proof -
  have "(x / 2)\<^sup>2 \<le> (3 / 4)\<^sup>2"
    using assms by (intro power_mono) simp_all
  then have "23 / 32 \<le> 1 - (x / 2)\<^sup>2 / 2" by (simp add: power2_eq_square)
  also have "\<dots> \<le> cos (x / 2)" by (rule cos_ge_parabola)
  finally have c: "23 / 32 \<le> cos (x / 2)" .
  then have "(23 / 32)\<^sup>2 \<le> (cos (x / 2))\<^sup>2" by (intro power_mono) simp_all
  moreover have "cos x = 2 * (cos (x / 2))\<^sup>2 - 1"
    using cos_double_cos [of "x / 2"] by simp
  ultimately show ?thesis by (simp add: power2_eq_square)
qed

lemma cos_fixture_pos: "0 < cos (3.0 * 0.5 - 1.0 * sin (0.5::real))"
proof -
  have s0: "0 < sin (1 / 2 :: real)" by (rule sin_gt_zero_02) simp_all
  have s1: "sin (1 / 2 :: real) \<le> 1" by (rule sin_le_one)
  have "0 \<le> 3 / 2 - sin (1 / 2 :: real)" using s1 by linarith
  moreover have "3 / 2 - sin (1 / 2 :: real) \<le> 3 / 2" using s0 by linarith
  ultimately have "0 < cos (3 / 2 - sin (1 / 2 :: real))"
    by (rule cos_pos_upto_three_halves)
  then show ?thesis by simp
qed

lemma fixture_value_differs:
  "cos (3.0 * 0.5 - 1.0 * sin (0.5::real)) / PI \<noteq> cos (3.0 * 0.5 - 1.0 * sin 0.5)"
proof
  let ?c = "cos (3.0 * 0.5 - 1.0 * sin (0.5::real))"
  assume "?c / PI = ?c"
  moreover have "PI \<noteq> 0" "PI \<noteq> 1" by (simp_all add: PI_def)
  ultimately have "?c * (PI - 1) = 0" by (simp add: field_simps)
  then have "?c = 0" using \<open>PI \<noteq> 1\<close> by simp
  with cos_fixture_pos show False by simp
qed

subsection \<open>The claims\<close>

text \<open>
  C1. If the context \<open>(f, n, p)\<close> is active, with \<open>p\<close> an array of \<open>n\<close> doubles,
  then \<open>call_c_multivariate\<close> at \<open>x\<close> returns \<open>f(n, a)\<close> for \<open>a\<close> the array
  \<open>x\<close> followed by \<open>p\<close>, and passes the result through unchanged. This holds
  for \<open>0 \<le> n < INT_MAX\<close>: the header computes \<open>globalnargs + 1\<close> in an int.
\<close>

theorem call_c_multivariate_concat:
  assumes "0 \<le> n" and "n < INT_MAX" and "length p = nat n"
    and "globalf g = Ptr b" and "funcs_n m b = Some f"
    and "globalnargs g = n"
    and "globalargs g = Ptr a" and "doubles m a = Some p"
  shows "call_c_multivariate m g (x # xs) = f n (x # p)"
proof -
  have "call_c_multivariate m g (x # xs) =
        f (globalnargs g) (x # take (nat (globalnargs g)) p)"
    using assms by (intro call_c_multivariate_eval) auto
  with assms show ?thesis by simp
qed

theorem call_c_multivariate_concat_witness:
  "(0::int) \<le> 2 \<and> 2 < INT_MAX \<and> length [3.0, 1.0 :: real] = nat 2
   \<and> globalf outer_globals = Ptr 4 \<and> funcs_n (fixture_memory first_arg) 4 = Some first_arg
   \<and> globalnargs outer_globals = 2
   \<and> globalargs outer_globals = Ptr 2 \<and> doubles (fixture_memory first_arg) 2 = Some [3.0, 1.0]
   \<and> call_c_multivariate (fixture_memory first_arg) outer_globals [0.5]
       = first_arg 2 [0.5, 3.0, 1.0]"
  using call_c_multivariate_concat [of 2 "[3.0, 1.0]" outer_globals
      4 "fixture_memory first_arg" first_arg 2 "0.5" "[]"]
  by (simp add: fixture_memory_def INT_MAX_def outer_globals_def)

text \<open>
  C1 as it is written, for every \<open>n \<ge> 0\<close>, fails at \<open>n = INT_MAX\<close>: the context
  is active on an array of \<open>INT_MAX\<close> doubles, and the call is undefined
  (\<open>globalnargs + 1\<close> overflows) instead of returning \<open>f(n, a)\<close>.
\<close>

theorem call_c_multivariate_int_max_counterexample:
  "globalf widest_globals = Ptr 4 \<and> funcs_n widest_memory 4 = Some first_arg
   \<and> globalnargs widest_globals = 2147483647
   \<and> globalargs widest_globals = Ptr 2
   \<and> doubles widest_memory 2 = Some (replicate 2147483647 0)
   \<and> length (replicate 2147483647 (0::real)) = nat 2147483647
   \<and> call_c_multivariate widest_memory widest_globals [0]
       \<noteq> first_arg 2147483647 (0 # replicate 2147483647 0)"
  by (simp add: widest_globals_def widest_memory_def call_c_multivariate_def int_add_def
      INT_MAX_def INT_MIN_def first_arg_def)

text \<open>
  C2. Install / restore pairs nest like a stack. Pair A installs with success;
  inside its region, after any actions \<open>pre\<close>, pair B installs. Then B's record
  holds A's new values as its previous ones; after B's body and B's restore the
  active triple is A's new values again; after the rest of A's region and A's
  restore the variables are what they were before A's install; and a run of any
  actions, regions nested to any depth with any evaluations, leaves the variables
  as they were.
\<close>

theorem nested_pairs_compose_as_stack:
  assumes A: "init_c_multivariate sA fA nA aA g = (NPY_SUCCEED, stA, gA)"
    and B: "init_c_multivariate sB fB nB aB (fst (run_actions m pre gA)) = (rc, stB, gB)"
  shows "z_previous stB = z_new stA
       \<and> active_multivariate (restore_c_multivariate stB (fst (run_actions m body gB))) = z_new stA
       \<and> restore_c_multivariate stA
            (fst (run_actions m post
                   (restore_c_multivariate stB (fst (run_actions m body gB))))) = g
       \<and> fst (run_actions m acts g) = g"
proof -
  have fA: "fA \<noteq> NULL"
    using A by (auto simp: init_c_multivariate_def Let_def NPY_FAIL_def NPY_SUCCEED_def)
  have stA: "z_new stA = (fA, nA, aA)"
    using A init_c_multivariate_new [of sA fA nA aA g] by simp
  have gA: "gA = g\<lparr>globalf := fA, globalnargs := nA, globalargs := aA\<rparr>"
    using A fA init_c_multivariate_frame [of sA fA nA aA g] by simp
  have pre: "fst (run_actions m pre gA) = gA" by (rule run_preserves_globals)
  have stB: "z_previous stB = active_multivariate gA"
    using B init_c_multivariate_previous [of sB fB nB aB gA] by (simp add: pre)
  have c1: "z_previous stB = z_new stA"
    by (simp add: stB stA gA active_multivariate_def)
  have body: "fst (run_actions m body gB) = gB" by (rule run_preserves_globals)
  have rB: "restore_c_multivariate stB gB = gA"
    using B unfolding pre by (rule restore_after_init)
  have c2: "active_multivariate (restore_c_multivariate stB (fst (run_actions m body gB)))
            = z_new stA"
    by (simp add: body rB stA gA active_multivariate_def)
  have post: "fst (run_actions m post gA) = gA" by (rule run_preserves_globals)
  have rA: "restore_c_multivariate stA gA = g"
    using A by (rule restore_after_init)
  have c3: "restore_c_multivariate stA
            (fst (run_actions m post
                   (restore_c_multivariate stB (fst (run_actions m body gB))))) = g"
    by (simp add: body rB post rA)
  have c4: "fst (run_actions m acts g) = g" by (rule run_preserves_globals)
  from c1 c2 c3 c4 show ?thesis by blast
qed

theorem nested_pairs_compose_as_stack_witness:
  "init_c_multivariate blank_ZStorage (Ptr 4) 2 (Ptr 2) initial_globals
     = (NPY_SUCCEED, outer_record, outer_globals)
   \<and> init_c_multivariate blank_ZStorage (Ptr 5) 0 NULL
        (fst (run_actions (fixture_memory typical) [Evaluate [0.5]] outer_globals))
     = (NPY_SUCCEED, inner_record, inner_globals)
   \<and> z_previous inner_record = (Ptr 4, 2, Ptr 2)
   \<and> active_multivariate
        (restore_c_multivariate inner_record
          (fst (run_actions (fixture_memory typical) [Evaluate [0.25]] inner_globals)))
       = (Ptr 4, 2, Ptr 2)
   \<and> restore_c_multivariate outer_record
        (fst (run_actions (fixture_memory typical) [Evaluate [0.75]]
          (restore_c_multivariate inner_record
            (fst (run_actions (fixture_memory typical) [Evaluate [0.25]] inner_globals)))))
       = initial_globals
   \<and> fst (run_actions (fixture_memory typical)
        [Region blank_ZStorage (Ptr 4) 2 (Ptr 2)
           [Evaluate [0.5], Region blank_ZStorage (Ptr 5) 0 NULL [Evaluate [0.25]]]]
        initial_globals)
       = initial_globals"
proof -
  have h1: "init_c_multivariate blank_ZStorage (Ptr 4) 2 (Ptr 2) initial_globals
     = (NPY_SUCCEED, outer_record, outer_globals)"
    by (simp add: init_c_multivariate_def blank_ZStorage_def outer_record_def outer_globals_def
        initial_globals_def)
  have h2: "init_c_multivariate blank_ZStorage (Ptr 5) 0 NULL
        (fst (run_actions (fixture_memory typical) [Evaluate [0.5]] outer_globals))
     = (NPY_SUCCEED, inner_record, inner_globals)"
    by (simp add: init_c_multivariate_def blank_ZStorage_def inner_record_def inner_globals_def
        outer_globals_def initial_globals_def)
  show ?thesis
    using h1 h2
      nested_pairs_compose_as_stack [OF h1 h2, of "[Evaluate [0.25]]" "[Evaluate [0.75]]"
        "[Region blank_ZStorage (Ptr 4) 2 (Ptr 2)
           [Evaluate [0.5], Region blank_ZStorage (Ptr 5) 0 NULL [Evaluate [0.25]]]]"]
    by (simp add: z_new_def outer_record_def)
qed

text \<open>
  C3. An install whose new function reference is null fails and leaves the
  file-level variables as they were: so for \<open>init_c_multivariate\<close>, and for
  \<open>init_ctypes_func\<close> when the pointer read from the ctypes object is null.
  \<open>quad_init_func\<close> does not test its function reference: its status is the
  same for every function reference; whenever it fails, the variables are as
  they were.
\<close>

theorem failed_install_leaves_state:
  "fst (init_c_multivariate store NULL n args g) = NPY_FAIL
   \<and> snd (snd (init_c_multivariate store NULL n args g)) = g
   \<and> (get_ctypes_function_pointer py func = Some NULL \<longrightarrow>
        init_ctypes_func qstore func g py =
          Some (NPY_FAIL, qstore\<lparr>global0 := quadpack_ctypes_function g, global1 := NULL\<rparr>, g))
   \<and> (fst (quad_init_func fresh qstore func a g py) = NPY_FAIL \<longrightarrow>
        fst (snd (snd (quad_init_func fresh qstore func a g py))) = g)
   \<and> fst (quad_init_func fresh qstore func a g py) = fst (quad_init_func fresh qstore func' a g py)"
proof -
  have 1: "fst (init_c_multivariate store NULL n args g) = NPY_FAIL"
    by (simp add: init_c_multivariate_status)
  have 2: "snd (snd (init_c_multivariate store NULL n args g)) = g"
    by (simp add: init_c_multivariate_frame)
  have 3: "get_ctypes_function_pointer py func = Some NULL \<longrightarrow>
        init_ctypes_func qstore func g py =
          Some (NPY_FAIL, qstore\<lparr>global0 := quadpack_ctypes_function g, global1 := NULL\<rparr>, g)"
    by (simp add: init_ctypes_func_def Let_def)
  have 4: "fst (quad_init_func fresh qstore func a g py) = NPY_FAIL \<longrightarrow>
        fst (snd (snd (quad_init_func fresh qstore func a g py))) = g"
    by (simp add: quad_init_func_globals NPY_FAIL_def NPY_SUCCEED_def)
  have 5: "fst (quad_init_func fresh qstore func a g py)
           = fst (quad_init_func fresh qstore func' a g py)"
    by (simp add: quad_init_func_status)
  from 1 2 3 4 5 show ?thesis by blast
qed

theorem failed_install_leaves_state_witness:
  "get_ctypes_function_pointer sample_pystate (Ptr 6) = Some NULL
   \<and> init_ctypes_func blank_QStorage (Ptr 6) initial_globals sample_pystate
         = Some (NPY_FAIL, blank_QStorage, initial_globals)
   \<and> fst (quad_init_func None blank_QStorage (Ptr 6) (Ptr 8) initial_globals sample_pystate)
       = NPY_FAIL
   \<and> fst (snd (snd (quad_init_func None blank_QStorage (Ptr 6) (Ptr 8) initial_globals
                      sample_pystate)))
       = initial_globals"
proof -
  have h1: "get_ctypes_function_pointer sample_pystate (Ptr 6) = Some NULL"
    by (simp add: get_ctypes_function_pointer_def sample_pystate_def)
  have h2: "fst (quad_init_func None blank_QStorage (Ptr 6) (Ptr 8) initial_globals sample_pystate)
            = NPY_FAIL"
    by (simp add: quad_init_func_status PyTuple_Check_def sample_pystate_def)
  show ?thesis
    using h1 h2
      failed_install_leaves_state [where py = sample_pystate and func = "Ptr 6"
        and qstore = blank_QStorage and g = initial_globals and fresh = None and a = "Ptr 8"]
    by (simp add: blank_QStorage_def initial_globals_def)
qed

text \<open>
  C3 as it is written fails for \<open>quad_init_func\<close>: with a null function
  reference and a tuple of extra arguments it does not fail, and it overwrites
  the active Python function.
\<close>

theorem quad_init_func_null_function_counterexample:
  "fst (quad_init_func None blank_QStorage NULL (Ptr 7)
          (initial_globals\<lparr>quadpack_python_function := Ptr 5\<rparr>) sample_pystate) \<noteq> NPY_FAIL
   \<and> quadpack_python_function
        (fst (snd (snd (quad_init_func None blank_QStorage NULL (Ptr 7)
          (initial_globals\<lparr>quadpack_python_function := Ptr 5\<rparr>) sample_pystate))))
       \<noteq> quadpack_python_function (initial_globals\<lparr>quadpack_python_function := Ptr 5\<rparr>)"
  by (simp add: quad_init_func_globals quad_init_func_status PyTuple_Check_def sample_pystate_def
      NPY_FAIL_def NPY_SUCCEED_def)

text \<open>
  C4. On a successful install the record's previous half is the active state
  as it was before the call, and on return the active state is the record's new
  half, which is what was passed in. For \<open>quad_init_func\<close> the record keeps the
  previous function, arguments and jump buffer, and of the new state the
  arguments; the new function is the one passed in.
\<close>

theorem install_saves_then_activates:
  "(init_c_multivariate store f n args g = (NPY_SUCCEED, st, g') \<longrightarrow>
      z_previous st = active_multivariate g \<and> z_new st = (f, n, args)
      \<and> active_multivariate g' = z_new st)
   \<and> (quad_init_func fresh qstore func a g py = (NPY_SUCCEED, qst, h', py') \<longrightarrow>
      q_previous qst = active_python g
      \<and> quadpack_python_function h' = func \<and> quadpack_extra_arguments h' = arg_obj qst)"
proof -
  have 1: "init_c_multivariate store f n args g = (NPY_SUCCEED, st, g') \<longrightarrow>
      z_previous st = active_multivariate g \<and> z_new st = (f, n, args)
      \<and> active_multivariate g' = z_new st"
    by (auto simp: init_c_multivariate_def Let_def z_previous_def z_new_def active_multivariate_def
        NPY_FAIL_def NPY_SUCCEED_def split: if_splits)
  have 2: "quad_init_func fresh qstore func a g py = (NPY_SUCCEED, qst, h', py') \<longrightarrow>
      q_previous qst = active_python g
      \<and> quadpack_python_function h' = func \<and> quadpack_extra_arguments h' = arg_obj qst"
    by (auto simp: quad_init_func_cases quad_init_check_cases Let_def q_previous_def
        active_python_def NPY_FAIL_def NPY_SUCCEED_def split: if_splits option.splits)
  from 1 2 show ?thesis by blast
qed

theorem install_saves_then_activates_witness:
  "init_c_multivariate blank_ZStorage (Ptr 4) 2 (Ptr 2) initial_globals =
     (NPY_SUCCEED, outer_record, outer_globals)
   \<and> z_previous outer_record = active_multivariate initial_globals
   \<and> active_multivariate outer_globals = (Ptr 4, 2, Ptr 2)
   \<and> quad_init_func None blank_QStorage (Ptr 5) (Ptr 7) initial_globals sample_pystate =
     (NPY_SUCCEED,
      \<lparr>global0 = NULL, global1 = NULL, jmp = [], arg_obj = Ptr 7\<rparr>,
      initial_globals\<lparr>quadpack_python_function := Ptr 5, quadpack_extra_arguments := Ptr 7\<rparr>,
      Py_INCREF (Ptr 7) sample_pystate)
   \<and> quadpack_extra_arguments
        (initial_globals\<lparr>quadpack_python_function := Ptr 5, quadpack_extra_arguments := Ptr 7\<rparr>)
       = Ptr 7"
proof -
  have h1: "init_c_multivariate blank_ZStorage (Ptr 4) 2 (Ptr 2) initial_globals =
     (NPY_SUCCEED, outer_record, outer_globals)"
    by (simp add: init_c_multivariate_def blank_ZStorage_def outer_record_def outer_globals_def
        initial_globals_def)
  have h2: "quad_init_func None blank_QStorage (Ptr 5) (Ptr 7) initial_globals sample_pystate =
     (NPY_SUCCEED,
      \<lparr>global0 = NULL, global1 = NULL, jmp = [], arg_obj = Ptr 7\<rparr>,
      initial_globals\<lparr>quadpack_python_function := Ptr 5, quadpack_extra_arguments := Ptr 7\<rparr>,
      Py_INCREF (Ptr 7) sample_pystate)"
    by (simp add: quad_init_func_cases quad_init_check_cases PyTuple_Check_Py_INCREF
        blank_QStorage_def initial_globals_def)
       (simp add: PyTuple_Check_def sample_pystate_def)
  show ?thesis
    using h1 h2
      install_saves_then_activates [where store = blank_ZStorage and f = "Ptr 4" and n = 2
        and args = "Ptr 2" and g = initial_globals
        and st = outer_record and g' = outer_globals
        and fresh = None and qstore = blank_QStorage and func = "Ptr 5" and a = "Ptr 7"
        and py = sample_pystate
        and qst = "\<lparr>global0 = NULL, global1 = NULL, jmp = [], arg_obj = Ptr 7\<rparr>"
        and h' = "initial_globals\<lparr>quadpack_python_function := Ptr 5,
                                     quadpack_extra_arguments := Ptr 7\<rparr>"
        and py' = "Py_INCREF (Ptr 7) sample_pystate"]
    by (simp add: z_new_def)
qed

text \<open>
  C5. Each restore writes the record's previous half into the active state,
  whatever the active state held, and has no failure to report: the four
  restores are total functions of the record and the state.
\<close>

theorem restore_writes_previous:
  "active_multivariate (restore_c_multivariate store g) = z_previous store
   \<and> active_python (fst (quad_restore_func qstore ierr g py)) = q_previous qstore
   \<and> quadpack_ctypes_function (restore_ctypes_func qstore g) = global0 qstore
   \<and> globalbasef (funcwrapper_restore ystore g) = y_func0 ystore"
  by (simp add: restore_c_multivariate_def active_multivariate_def z_previous_def
      quad_restore_func_def active_python_def q_previous_def Let_def
      restore_ctypes_func_def funcwrapper_restore_def split: option.splits)

text \<open>
  C6. \<open>init_c_multivariate\<close> succeeds with arity 0 and a function that is not
  null, and then \<open>call_c_multivariate\<close> at \<open>x\<close> returns \<open>f(0, [x])\<close>, whatever
  the parameter pointer is and whatever arrays the memory holds.
\<close>

theorem arity_zero_accepted:
  assumes "funcs_n m b = Some fn"
    and "init_c_multivariate store (Ptr b) 0 args g = (rc, st, g')"
  shows "rc = NPY_SUCCEED \<and> call_c_multivariate (m\<lparr>doubles := d\<rparr>) g' (x # xs) = fn 0 [x]"
proof -
  have rc: "rc = NPY_SUCCEED"
    using assms(2) init_c_multivariate_status [of store "Ptr b" 0 args g] by simp
  have g': "g' = g\<lparr>globalf := Ptr b, globalnargs := 0, globalargs := args\<rparr>"
    using assms(2) init_c_multivariate_frame [of store "Ptr b" 0 args g] by simp
  have "call_c_multivariate (m\<lparr>doubles := d\<rparr>) g' (x # xs) =
        fn (globalnargs g') (x # take (nat (globalnargs g')) [])"
    using assms(1) g' by (intro call_c_multivariate_eval) (simp_all add: INT_MAX_def)
  with rc g' show ?thesis by simp
qed

theorem arity_zero_accepted_witness:
  "funcs_n (fixture_memory first_arg) 4 = Some first_arg
   \<and> init_c_multivariate blank_ZStorage (Ptr 4) 0 NULL initial_globals =
       (NPY_SUCCEED, blank_ZStorage\<lparr>z_f1 := Ptr 4\<rparr>, initial_globals\<lparr>globalf := Ptr 4\<rparr>)
   \<and> call_c_multivariate ((fixture_memory first_arg)\<lparr>doubles := Map.empty\<rparr>)
        (initial_globals\<lparr>globalf := Ptr 4\<rparr>) [0.5] = first_arg 0 [0.5]"
proof -
  have h1: "funcs_n (fixture_memory first_arg) 4 = Some first_arg"
    by (simp add: fixture_memory_def)
  have h2: "init_c_multivariate blank_ZStorage (Ptr 4) 0 NULL initial_globals =
       (NPY_SUCCEED, blank_ZStorage\<lparr>z_f1 := Ptr 4\<rparr>, initial_globals\<lparr>globalf := Ptr 4\<rparr>)"
    by (simp add: init_c_multivariate_def blank_ZStorage_def initial_globals_def)
  show ?thesis
    using h1 h2 arity_zero_accepted [OF h1 h2, of Map.empty "0.5" "[]"] by simp
qed

text \<open>
  C7. \<open>funcwrapper\<close> does not use its arity argument: its result is the same
  for every \<open>n\<close>. It calls the active wrapper function, the one
  \<open>funcwrapper_init\<close> installed, on the pointer \<open>args\<close>; when that function is
  a scalar function, one that reads the double it is pointed to, the result is
  the function's value at \<open>args[0]\<close>, whatever the rest of the array holds.
\<close>

theorem funcwrapper_ignores_arity:
  "funcwrapper m g n args = funcwrapper m g n' args
   \<and> (funcs_1 m b = Some h \<longrightarrow>
        funcwrapper m (snd (funcwrapper_init store (Ptr b) g)) n args = h args)
   \<and> (funcs_1 m b = Some (by_reference s) \<longrightarrow>
        funcwrapper m (snd (funcwrapper_init store (Ptr b) g)) n (x # rest) = Some (s x))"
proof -
  have active: "globalbasef (snd (funcwrapper_init store (Ptr b) g)) = Ptr b"
    by (simp add: funcwrapper_init_def Let_def)
  have arity: "funcwrapper m g n args = funcwrapper m g n' args"
    by (simp add: funcwrapper_def)
  have passes: "funcs_1 m b = Some h \<longrightarrow>
        funcwrapper m (snd (funcwrapper_init store (Ptr b) g)) n args = h args"
    by (simp add: funcwrapper_def active)
  have scalar: "funcs_1 m b = Some (by_reference s) \<longrightarrow>
        funcwrapper m (snd (funcwrapper_init store (Ptr b) g)) n (x # rest) = Some (s x)"
    by (simp add: funcwrapper_def active by_reference_def)
  from arity passes scalar show ?thesis by blast
qed

theorem funcwrapper_ignores_arity_witness:
  "funcs_1 negate_memory 3 = Some (by_reference uminus)
   \<and> funcwrapper negate_memory (snd (funcwrapper_init blank_YStorage (Ptr 3) initial_globals))
        5 [1, 2, 3] = Some (- 1)"
proof -
  have h: "funcs_1 negate_memory 3 = Some (by_reference uminus)"
    by (simp add: negate_memory_def)
  show ?thesis
    using h funcwrapper_ignores_arity [where m = negate_memory and b = 3 and s = uminus
        and h = "by_reference uminus" and store = blank_YStorage and g = initial_globals
        and n = 5 and n' = 5 and args = "[1, 2, 3]" and x = 1 and rest = "[2, 3]"]
    by (simp add: by_reference_def)
qed

text \<open>
  C8. After the install of arity 2 with the parameters \<open>[3.0, 1.0]\<close>, the
  evaluation at \<open>0.5\<close> passes the arity 2 and the array \<open>[0.5, 3.0, 1.0]\<close> to
  the active function, whatever function it is; with the fixture \<open>typical\<close> it
  returns \<open>cos(3.0*0.5 - 1.0*sin(0.5)) / PI\<close>: \<open>typical\<close> divides by \<open>PI\<close>.
  With the function as the specification writes it, the value is
  \<open>cos(3.0*0.5 - 1.0*sin(0.5))\<close>.
\<close>

theorem typical_scenario:
  "call_c_multivariate (fixture_memory fn)
     (snd (snd (init_c_multivariate store (Ptr 4) 2 (Ptr 2) g))) [0.5] = fn 2 [0.5, 3.0, 1.0]
   \<and> call_c_multivariate (fixture_memory typical)
     (snd (snd (init_c_multivariate store (Ptr 4) 2 (Ptr 2) g))) [0.5]
       = Some (cos (3.0 * 0.5 - 1.0 * sin 0.5) / PI)
   \<and> call_c_multivariate (fixture_memory scenario_g)
     (snd (snd (init_c_multivariate store (Ptr 4) 2 (Ptr 2) g))) [0.5]
       = Some (cos (3.0 * 0.5 - 1.0 * sin 0.5))"
proof -
  have passed: "call_c_multivariate (fixture_memory fn)
     (snd (snd (init_c_multivariate store (Ptr 4) 2 (Ptr 2) g))) [0.5] = fn 2 [0.5, 3.0, 1.0]"
    for fn
    by (rule fixture_call)
  have fixture: "typical 2 [0.5, 3.0, 1.0] = Some (cos (3.0 * 0.5 - 1.0 * sin 0.5) / PI)"
    by (simp add: typical_def)
  have written: "scenario_g 2 [0.5, 3.0, 1.0] = Some (cos (3.0 * 0.5 - 1.0 * sin 0.5))"
    by (simp add: scenario_g_def)
  show ?thesis
    using passed [of fn] passed [of typical] passed [of scenario_g] fixture written by simp
qed

text \<open>
  C8 as it is written fails: with \<open>typical\<close> the value returned is not
  \<open>cos(3.0*0.5 - 1.0*sin(0.5))\<close>.
\<close>

theorem typical_scenario_counterexample:
  "call_c_multivariate (fixture_memory typical)
     (snd (snd (init_c_multivariate blank_ZStorage (Ptr 4) 2 (Ptr 2) initial_globals))) [0.5]
   \<noteq> Some (cos (3.0 * 0.5 - 1.0 * sin 0.5))"
  using fixture_value_differs by (simp add: fixture_call typical_def)

text \<open>
  C9. \<open>init_c_multivariate\<close> with a null function fails, and has by then
  copied the active triple into the record's previous half: a restore with that
  record gives back the variables as they were before the install, and sets the
  active triple to its value before the install whatever the variables hold by
  then.
\<close>

theorem failed_install_still_restorable:
  "(case init_c_multivariate store NULL n args g of
      (rc, st, g') \<Rightarrow>
        rc = NPY_FAIL \<and> z_previous st = active_multivariate g
        \<and> restore_c_multivariate st g' = g
        \<and> active_multivariate (restore_c_multivariate st g'') = active_multivariate g)"
  by (simp add: init_c_multivariate_def Let_def z_previous_def active_multivariate_def
      restore_c_multivariate_def)

text \<open>
  C10. \<open>quad_init_func\<close> with a null argument object and a successful
  allocation succeeds and installs the new tuple, which is empty and has one
  reference. After any success the active extra arguments are not null and are
  a tuple. With an argument object that is not null and not a tuple it fails and
  the file-level variables, the jump buffer among them, are as they were.
\<close>

theorem quad_init_func_normalizes_arguments:
  "(case quad_init_func (Some t) store func NULL g py of
      (rc, st, g', py') \<Rightarrow>
        rc = NPY_SUCCEED \<and> quadpack_extra_arguments g' = Ptr t
        \<and> py_objects py' t = Some \<lparr>ob_refcnt = 1, ob_kind = PyTuple []\<rparr>)
   \<and> (case quad_init_func fresh store func a g py of
      (rc, st, g', py') \<Rightarrow>
        (rc = NPY_SUCCEED \<longrightarrow>
           quadpack_extra_arguments g' \<noteq> NULL \<and> PyTuple_Check py' (quadpack_extra_arguments g'))
        \<and> (a \<noteq> NULL \<and> \<not> PyTuple_Check py a \<longrightarrow> rc = NPY_FAIL \<and> g' = g))"
proof -
  have 1: "(case quad_init_func (Some t) store func NULL g py of
      (rc, st, g', py') \<Rightarrow>
        rc = NPY_SUCCEED \<and> quadpack_extra_arguments g' = Ptr t
        \<and> py_objects py' t = Some \<lparr>ob_refcnt = 1, ob_kind = PyTuple []\<rparr>)"
    by (simp add: quad_init_func_cases quad_init_check_cases PyTuple_Check_fresh)
  have 2: "(case quad_init_func fresh store func a g py of
      (rc, st, g', py') \<Rightarrow>
        (rc = NPY_SUCCEED \<longrightarrow>
           quadpack_extra_arguments g' \<noteq> NULL \<and> PyTuple_Check py' (quadpack_extra_arguments g'))
        \<and> (a \<noteq> NULL \<and> \<not> PyTuple_Check py a \<longrightarrow> rc = NPY_FAIL \<and> g' = g))"
    by (auto simp: quad_init_func_cases quad_init_check_cases PyTuple_Check_fresh
        PyTuple_Check_Py_INCREF Let_def NPY_FAIL_def NPY_SUCCEED_def split: option.splits)
  from 1 2 show ?thesis by blast
qed

theorem quad_init_func_normalizes_arguments_witness:
  "fst (quad_init_func None blank_QStorage (Ptr 5) (Ptr 7) initial_globals sample_pystate)
     = NPY_SUCCEED
   \<and> PyTuple_Check
        (snd (snd (snd (quad_init_func None blank_QStorage (Ptr 5) (Ptr 7) initial_globals
                         sample_pystate))))
        (quadpack_extra_arguments
          (fst (snd (snd (quad_init_func None blank_QStorage (Ptr 5) (Ptr 7) initial_globals
                           sample_pystate)))))
   \<and> Ptr 8 \<noteq> NULL \<and> \<not> PyTuple_Check sample_pystate (Ptr 8)
   \<and> fst (quad_init_func None blank_QStorage (Ptr 5) (Ptr 8) initial_globals sample_pystate)
       = NPY_FAIL
   \<and> fst (snd (snd (quad_init_func None blank_QStorage (Ptr 5) (Ptr 8) initial_globals
                      sample_pystate)))
       = initial_globals"
proof -
  have h1: "fst (quad_init_func None blank_QStorage (Ptr 5) (Ptr 7) initial_globals sample_pystate)
            = NPY_SUCCEED"
    by (simp add: quad_init_func_status PyTuple_Check_def sample_pystate_def)
  have h2: "Ptr 8 \<noteq> NULL \<and> \<not> PyTuple_Check sample_pystate (Ptr 8)"
    by (simp add: PyTuple_Check_def sample_pystate_def)
  show ?thesis
    using h1 h2
      quad_init_func_normalizes_arguments [where fresh = None and store = blank_QStorage
        and func = "Ptr 5" and a = "Ptr 7" and g = initial_globals and py = sample_pystate]
      quad_init_func_normalizes_arguments [where fresh = None and store = blank_QStorage
        and func = "Ptr 5" and a = "Ptr 8" and g = initial_globals and py = sample_pystate]
    by (simp add: case_prod_beta)
qed

end
